theory Spec2Isabelle
  imports Main
begin

section \<open>Shared data model\<close>

text \<open>
  A call either throws (for an asynchronous method: the promise rejects) or returns a
  value. Where the host awaits a provider inside \<open>try\<close>/\<open>catch\<close>, the two
  outcomes are the branches of a \<open>case\<close>.
\<close>

datatype 'a outcome = Throws | Returns 'a

text \<open>\<open>ICommon.SupportMediaType\<close>: the media kinds a search can ask for.\<close>

datatype SupportMediaType = Music | Album | Artist | Sheet | Lyric

text \<open>
  A JavaScript value where the code does not check that it is a string: \<open>platform\<close> of
  a plugin object (only its truthiness is tested) and what is copied from it. Numbers are
  integers here, and an object is known by its reference. \<open>===\<close> is equality of these
  values.
\<close>

datatype JsValue =
    JUndefined
  | JNull
  | JBool bool
  | JNumber int
  | JString string
  | JObject nat

fun jsTruthy :: "JsValue \<Rightarrow> bool" where
  "jsTruthy JUndefined = False"
| "jsTruthy JNull = False"
| "jsTruthy (JBool b) = b"
| "jsTruthy (JNumber n) = (n \<noteq> 0)"
| "jsTruthy (JString s) = (s \<noteq> [])"
| "jsTruthy (JObject r) = True"

text \<open>
  A media item as a provider hands it out. Only \<open>id\<close> is always there; every other
  field may be missing (\<open>None\<close> is JavaScript's \<open>undefined\<close>). Ids are strings, so
  \<open>String(item.id)\<close> is the id itself.
\<close>

record MediaItem =
  item_id :: string
  item_title :: "string option"
  item_name :: "string option"
  item_artist :: "string option"
  item_artwork :: "string option"
  item_avatar :: "string option"
  item_url :: "string option"
  item_platform :: JsValue

text \<open>\<open>IPlugin.ISearchResult\<close>: both fields may be left out by a provider.\<close>

record SearchResult =
  isEnd :: "bool option"
  data :: "MediaItem list option"

text \<open>\<open>IPlugin.IMediaSourceResult\<close>.\<close>

record MediaSourceResult =
  source_url :: string

text \<open>\<open>IPlugin.IUserVariable\<close>: a declarative descriptor of a user variable.\<close>

record UserVariable =
  var_key :: "string option"
  var_name :: "string option"
  var_hint :: "string option"

text \<open>
  \<open>IPluginInterface\<close> (and \<open>IPluginDefine\<close> of the helper layer): the identity fields
  and the optional capability methods. An absent method is \<open>None\<close>.
\<close>

record IPluginInterface =
  platform :: JsValue
  version :: "string option"
  supportedSearchType :: "SupportMediaType list option"
  userVariables :: "UserVariable list option"
  search :: "(string \<Rightarrow> nat \<Rightarrow> SupportMediaType \<Rightarrow> SearchResult outcome) option"
  getMediaSource :: "(MediaItem \<Rightarrow> string \<Rightarrow> MediaSourceResult option outcome) option"
  getAlbumInfo :: "(MediaItem \<Rightarrow> nat \<Rightarrow> unit option outcome) option"

text \<open>JavaScript truthiness of an optional string: present and non-empty.\<close>

definition truthy :: "string option \<Rightarrow> bool" where
  "truthy s = (case s of None \<Rightarrow> False | Some v \<Rightarrow> v \<noteq> [])"

text \<open>\<open>a || b\<close> on optional strings.\<close>

definition js_or :: "string option \<Rightarrow> string option \<Rightarrow> string option" where
  "js_or a b = (if truthy a then a else b)"

section \<open>helpers/PluginManager.ts\<close>

text \<open>\<open>PluginUserConfig\<close>: the stored per-plugin configuration.\<close>

record PluginUserConfig =
  cfg_userVariables :: "(string \<rightharpoonup> string) option"
  isEnabled :: "bool option"

text \<open>
  \<open>ManagedPlugin\<close>: the plugin module's own fields spread into the entry (only
  \<open>platform\<close> is read by the code modelled here), plus \<open>id\<close>, \<open>filePath\<close>,
  \<open>userConfig\<close> and the live \<open>instance\<close>.
\<close>

record ManagedPlugin =
  mp_platform :: string
  mp_id :: string
  filePath :: string
  userConfig :: PluginUserConfig
  mp_instance :: "IPluginInterface option"

text \<open>
  The manager's \<open>plugins\<close> is a JavaScript \<open>Map\<close>, which iterates in insertion order:
  an association list, read with \<open>map_of\<close>. The durable store \<open>PersistStatus\<close> is a
  map from keys to the JSON value written last; the stored value is kept as the
  configuration itself (\<open>JSON.stringify\<close> is not modelled).
\<close>

record ManagerState =
  mgr_plugins :: "(string \<times> ManagedPlugin) list"
  persist :: "string \<rightharpoonup> PluginUserConfig"


text \<open>\<open>getActivePlugins\<close>: \<open>isEnabled !== false\<close> and a live instance.\<close>

definition getActivePlugins :: "ManagerState \<Rightarrow> ManagedPlugin list" where
  "getActivePlugins m =
     filter (\<lambda>p. isEnabled (userConfig p) \<noteq> Some False \<and> mp_instance p \<noteq> None)
       (map snd (mgr_plugins m))"

section \<open>helpers/searchAll.ts\<close>

datatype SearchAllType = Songs | Artists

fun mapSearchType :: "SearchAllType \<Rightarrow> SupportMediaType" where
  "mapSearchType Songs = Music"
| "mapSearchType Artists = Artist"

text \<open>\<open>Track\<close> as \<open>searchAll\<close> builds it.\<close>

record Track =
  track_id :: string
  track_title :: "string option"
  track_artist :: "string option"
  track_artwork :: "string option"
  track_url :: string
  track_platform :: string
  isArtist :: "bool option"

text \<open>The callback of \<open>result.data.map\<close>.\<close>

definition toTrack :: "ManagedPlugin \<Rightarrow> SupportMediaType \<Rightarrow> MediaItem \<Rightarrow> Track" where
  "toTrack plugin pluginSearchType item =
     \<lparr> track_id = item_id item,
       track_title = js_or (item_title item) (item_name item),
       track_artist = js_or (item_artist item) (item_name item),
       track_artwork = js_or (item_artwork item) (item_avatar item),
       track_url = (case js_or (item_url item) (Some []) of Some u \<Rightarrow> u | None \<Rightarrow> []),
       track_platform = mp_platform plugin,
       isArtist = (if pluginSearchType = Artist then Some True else None) \<rparr>"

text \<open>
  One round of the \<open>for\<close> loop over the active plugins. The accumulator is the pair
  \<open>(aggregatedResults, hasMoreOverall)\<close>. A search that throws is caught and logged and
  changes nothing.
\<close>

definition searchStep ::
  "string \<Rightarrow> nat \<Rightarrow> SupportMediaType \<Rightarrow> Track list \<times> bool \<Rightarrow> ManagedPlugin \<Rightarrow> Track list \<times> bool"
where
  "searchStep searchText page pluginSearchType acc plugin =
     (case mp_instance plugin of
        None \<Rightarrow> acc
      | Some inst \<Rightarrow>
          (case search inst of
             None \<Rightarrow> acc
           | Some f \<Rightarrow>
               if isEnabled (userConfig plugin) = Some False then acc
               else
                 (case f searchText page pluginSearchType of
                    Throws \<Rightarrow> acc
                  | Returns result \<Rightarrow>
                      (case data result of
                         None \<Rightarrow> acc
                       | Some items \<Rightarrow>
                           if items = [] then acc
                           else
                             (fst acc @ map (toTrack plugin pluginSearchType) items,
                              (if isEnd result = Some False then True else snd acc))))))"

fun searchLoop ::
  "string \<Rightarrow> nat \<Rightarrow> SupportMediaType \<Rightarrow> Track list \<times> bool \<Rightarrow> ManagedPlugin list \<Rightarrow> Track list \<times> bool"
where
  "searchLoop searchText page ty acc [] = acc"
| "searchLoop searchText page ty acc (plugin # rest) =
     searchLoop searchText page ty (searchStep searchText page ty acc plugin) rest"

text \<open>\<open>Array.prototype.findIndex\<close>: the first index whose element passes, or \<open>-1\<close>.\<close>

fun findIndex :: "('a \<Rightarrow> bool) \<Rightarrow> 'a list \<Rightarrow> int" where
  "findIndex P [] = - 1"
| "findIndex P (x # xs) =
     (if P x then 0 else (let r = findIndex P xs in if r = - 1 then - 1 else r + 1))"

text \<open>
  The de-duplication filter: an element stays when its index is the first index of an
  element with the same \<open>id\<close> and \<open>platform\<close>.
\<close>

definition uniqueResults :: "Track list \<Rightarrow> Track list" where
  "uniqueResults self =
     map snd
       (filter
          (\<lambda>(index, track).
             int index =
               findIndex (\<lambda>t. track_id t = track_id track \<and> track_platform t = track_platform track) self)
          (enumerate 0 self))"

record SearchAllResult =
  result_data :: "Track list"
  hasMore :: bool

definition searchAll :: "ManagerState \<Rightarrow> string \<Rightarrow> nat \<Rightarrow> SearchAllType \<Rightarrow> SearchAllResult" where
  "searchAll m searchText page ty =
     (let activePlugins = getActivePlugins m;
          pluginSearchType = mapSearchType ty;
          (aggregatedResults, hasMoreOverall) =
             searchLoop searchText page pluginSearchType ([], False) activePlugins
      in \<lparr> result_data = uniqueResults aggregatedResults, hasMore = hasMoreOverall \<rparr>)"

section \<open>helpers/PluginManager.ts: user variables\<close>









section \<open>plugins/core/PluginLoader.ts\<close>

datatype PluginState = Loading | Mounted | Error

datatype PluginErrorReason = CannotParse | VersionNotMatch

text \<open>
  What the \<open>catch\<close> clause of \<open>loadFromCode\<close> reads from a caught value \<open>e\<close>:
  \<open>e?.errorReason\<close> and \<open>e?.instance\<close>. An ordinary \<open>Error\<close> (a syntax error, a
  \<open>TypeError\<close>, the error of \<open>validatePlugin\<close>) has neither.
\<close>

record Thrown =
  thrown_errorReason :: "PluginErrorReason option"
  thrown_instance :: "IPluginInterface option"

definition plainError :: Thrown where
  "plainError = \<lparr> thrown_errorReason = None, thrown_instance = None \<rparr>"

text \<open>
  What \<open>_module.exports\<close> is after the plugin code ran: an object, with its
  \<open>default\<close> property when that is truthy and with the object itself read as a plugin;
  \<open>null\<close> (whose \<open>typeof\<close> is \<open>'object'\<close> too); or a value that is no object.
\<close>

datatype ModuleExports =
    ExportsObject "IPluginInterface option" IPluginInterface
  | ExportsNull
  | ExportsOther

text \<open>
  The collaborators of the loader and the registry that are not part of the repository:
  the JavaScript engine running the plugin code (\<open>new Function\<close> and the call with
  \<open>module\<close>, \<open>exports\<close> and \<open>require\<close>; and the second call \<open>funcCode()\<close> without
  arguments, whose result is \<open>None\<close> for \<open>null\<close> or \<open>undefined\<close>), the \<open>semver\<close> library
  (\<open>satisfies\<close>, which never throws, and \<open>compare\<close>, which returns \<open>-1\<close>, \<open>0\<close> or \<open>1\<close>
  and throws on an invalid version), \<open>DeviceInfo.getVersion()\<close> and
  \<open>pathConst.pluginPath\<close>.
\<close>

record Env =
  runModule :: "string \<Rightarrow> Thrown + ModuleExports"
  runBare :: "string \<Rightarrow> Thrown + IPluginInterface option"
  satisfies :: "string \<Rightarrow> string \<Rightarrow> bool"
  compare :: "string \<Rightarrow> string \<Rightarrow> int outcome"
  getVersion :: string
  pathConst_pluginPath :: string

text \<open>The dummy instance created in the \<open>catch\<close> clause.\<close>

definition dummyInstance :: IPluginInterface where
  "dummyInstance =
     \<lparr> platform = JString [],
       version = Some ''0.0.0'',
       supportedSearchType = None,
       userVariables = None,
       search = Some (\<lambda>query page ty. Returns \<lparr> isEnd = Some True, data = Some [] \<rparr>),
       getMediaSource = Some (\<lambda>musicItem quality. Returns None),
       getAlbumInfo = Some (\<lambda>albumItem page. Returns None) \<rparr>"

text \<open>
  \<open>validatePlugin\<close>: the version is checked first, the platform second. Reading
  \<open>instance.version\<close> of \<open>null\<close> or \<open>undefined\<close> is a \<open>TypeError\<close>.
\<close>

definition validatePlugin :: "Env \<Rightarrow> IPluginInterface option \<Rightarrow> Thrown + bool" where
  "validatePlugin env inst =
     (case inst of
        None \<Rightarrow> Inl plainError
      | Some i \<Rightarrow>
          if (case version i of
                None \<Rightarrow> False
              | Some v \<Rightarrow> v \<noteq> [] \<and> \<not> satisfies env (getVersion env) v)
          then Inl \<lparr> thrown_errorReason = Some VersionNotMatch, thrown_instance = Some i \<rparr>
          else if \<not> jsTruthy (platform i) then Inl plainError
          else Inr True)"

text \<open>Lines 58 to 108: running the code and picking the instance out of the exports.\<close>

definition getInstance :: "Env \<Rightarrow> string \<Rightarrow> Thrown + IPluginInterface option" where
  "getInstance env pluginCode =
     (case runModule env pluginCode of
        Inl e \<Rightarrow> Inl e
      | Inr ExportsNull \<Rightarrow> Inl plainError
      | Inr (ExportsObject dflt self) \<Rightarrow>
          (case dflt of Some i \<Rightarrow> Inr (Some i) | None \<Rightarrow> Inr (Some self))
      | Inr ExportsOther \<Rightarrow> runBare env pluginCode)"

text \<open>\<open>userVariables.filter(it => it?.key)\<close>, when \<open>userVariables\<close> is an array.\<close>

definition filterUserVariables :: "IPluginInterface \<Rightarrow> IPluginInterface" where
  "filterUserVariables i =
     (case userVariables i of
        None \<Rightarrow> i
      | Some vs \<Rightarrow> i\<lparr>userVariables := Some (filter (\<lambda>it. truthy (var_key it)) vs)\<rparr>)"

text \<open>The body of the \<open>try\<close> block: the validated instance, or what was thrown.\<close>

definition tryLoad :: "Env \<Rightarrow> string \<Rightarrow> Thrown + IPluginInterface" where
  "tryLoad env pluginCode =
     (case getInstance env pluginCode of
        Inl e \<Rightarrow> Inl e
      | Inr inst \<Rightarrow>
          (case validatePlugin env inst of
             Inl e \<Rightarrow> Inl e
           | Inr ok \<Rightarrow>
               (case inst of
                  None \<Rightarrow> Inl plainError
                | Some i \<Rightarrow> Inr (filterUserVariables i))))"

record LoadResult =
  loaded_instance :: IPluginInterface
  loaded_state :: PluginState
  errorReason :: "PluginErrorReason option"
  loaded_hash :: string
  loaded_name :: JsValue
  loaded_path :: string

text \<open>
  \<open>loadFromCode\<close>. The hash is \<open>nanoid()\<close>, a fresh random identifier drawn at every
  call whatever the code is: it is an argument of the model.
\<close>

definition loadFromCode :: "Env \<Rightarrow> string \<Rightarrow> string \<Rightarrow> string \<Rightarrow> LoadResult" where
  "loadFromCode env nanoid pluginCode pluginPath =
     (case tryLoad env pluginCode of
        Inr i \<Rightarrow>
          \<lparr> loaded_instance = i, loaded_state = Mounted, errorReason = None,
            loaded_hash = nanoid, loaded_name = platform i, loaded_path = pluginPath \<rparr>
      | Inl e \<Rightarrow>
          (let i = (case thrown_instance e of Some i \<Rightarrow> i | None \<Rightarrow> dummyInstance)
           in \<lparr> loaded_instance = i, loaded_state = Error,
                errorReason = Some (case thrown_errorReason e of Some r \<Rightarrow> r | None \<Rightarrow> CannotParse),
                loaded_hash = nanoid, loaded_name = platform i, loaded_path = pluginPath \<rparr>))"

section \<open>plugins/core/PluginRegistry.ts\<close>

record PluginMeta =
  enabled :: bool
  order :: nat
  meta_userVariables :: "string \<rightharpoonup> string"

record RegisteredPlugin =
  rp_instance :: IPluginInterface
  state :: PluginState
  hash :: string
  name :: JsValue
  path :: string
  meta :: PluginMeta

record InstallPluginConfig =
  notCheckVersion :: "bool option"

record InstallPluginResult =
  success :: bool
  message :: "string option"
  pluginName :: JsValue
  pluginHash :: "string option"

text \<open>
  The registry's own state. The files it deletes and copies and the events it emits
  live outside of it and are not part of the model; only the failure of \<open>copyFile\<close>,
  which is not caught, is (as \<open>copyOk\<close> below). A failing \<open>unlink\<close> is swallowed by
  the code.
\<close>

record Registry =
  plugins :: "RegisteredPlugin list"
  builtinPlugins :: "RegisteredPlugin list"
  initialized :: bool

definition registerBuiltinPlugin :: "string \<Rightarrow> Registry \<Rightarrow> IPluginInterface \<Rightarrow> Registry" where
  "registerBuiltinPlugin nanoid reg plugin =
     reg\<lparr>builtinPlugins := builtinPlugins reg @
           [\<lparr> rp_instance = plugin, state = Mounted, hash = nanoid, name = platform plugin,
              path = ''builtin'',
              meta = \<lparr> enabled = True, order = 0, meta_userVariables = Map.empty \<rparr> \<rparr>]\<rparr>"


text \<open>\<open>!config?.notCheckVersion\<close>.\<close>

definition checksVersion :: "InstallPluginConfig option \<Rightarrow> bool" where
  "checksVersion config =
     (case config of
        None \<Rightarrow> True
      | Some c \<Rightarrow> notCheckVersion c \<noteq> Some True)"

text \<open>\<open>x ?? '0.0.0'\<close> on a version.\<close>

definition versionOrZero :: "string option \<Rightarrow> string" where
  "versionOrZero v = (case v of Some s \<Rightarrow> s | None \<Rightarrow> ''0.0.0'')"

text \<open>
  \<open>installPlugin\<close>. \<open>nanoid\<close> is the hash drawn by the loader and \<open>filename\<close> the second
  random identifier, drawn for the file name. The number returned by \<open>compare\<close> is used
  as the condition of the \<open>if\<close>: it is taken as true when it is not \<open>0\<close>.
\<close>

definition installPlugin ::
  "Env \<Rightarrow> string \<Rightarrow> string \<Rightarrow> bool \<Rightarrow> Registry \<Rightarrow> string \<Rightarrow> string \<Rightarrow> InstallPluginConfig option
     \<Rightarrow> Registry \<times> InstallPluginResult outcome"
where
  "installPlugin env nanoid filename copyOk reg pluginCode pluginPath config =
     (if pluginCode = []
      then (reg, Returns \<lparr> success = False, message = Some ''Plugin code is empty'',
                           pluginName = JUndefined, pluginHash = None \<rparr>)
      else
        (let r = loadFromCode env nanoid pluginCode pluginPath
         in case find (\<lambda>p. hash p = loaded_hash r) (plugins reg) of
              Some existingPlugin \<Rightarrow>
                (reg, Returns \<lparr> success = True, message = Some ''Plugin is already installed'',
                                pluginName = loaded_name r, pluginHash = Some (loaded_hash r) \<rparr>)
            | None \<Rightarrow>
                (let existingPluginWithSameName = find (\<lambda>p. name p = loaded_name r) (plugins reg);
                     compared =
                       (case existingPluginWithSameName of
                          None \<Rightarrow> Returns False
                        | Some old \<Rightarrow>
                            if checksVersion config
                            then (case compare env (versionOrZero (version (rp_instance old)))
                                          (versionOrZero (version (loaded_instance r))) of
                                    Throws \<Rightarrow> Throws
                                  | Returns c \<Rightarrow> Returns (c \<noteq> 0))
                            else Returns False)
                 in case compared of
                      Throws \<Rightarrow> (reg, Throws)
                    | Returns True \<Rightarrow>
                        (reg, Returns \<lparr> success = False,
                                        message = Some ''A newer version of the plugin is already installed'',
                                        pluginName = loaded_name r, pluginHash = Some (loaded_hash r) \<rparr>)
                    | Returns False \<Rightarrow>
                        if loaded_state r = Mounted
                        then
                          (let kept = (case existingPluginWithSameName of
                                         Some old \<Rightarrow> filter (\<lambda>p. hash p \<noteq> hash old) (plugins reg)
                                       | None \<Rightarrow> plugins reg);
                               newPluginPath = pathConst_pluginPath env @ filename @ ''.js''
                           in if \<not> copyOk then (reg\<lparr>plugins := kept\<rparr>, Throws)
                              else
                                (reg\<lparr>plugins := kept @
                                      [\<lparr> rp_instance = loaded_instance r, state = loaded_state r,
                                         hash = loaded_hash r, name = loaded_name r, path = newPluginPath,
                                         meta = \<lparr> enabled = True,
                                                  order = (case existingPluginWithSameName of
                                                             Some old \<Rightarrow> order (meta old)
                                                           | None \<Rightarrow> length kept),
                                                  meta_userVariables = Map.empty \<rparr> \<rparr>]\<rparr>,
                                 Returns \<lparr> success = True, message = None,
                                           pluginName = loaded_name r, pluginHash = Some (loaded_hash r) \<rparr>))
                        else (reg, Returns \<lparr> success = False, message = Some ''Plugin cannot be parsed'',
                                             pluginName = JUndefined, pluginHash = None \<rparr>))))"

text \<open>
  \<open>installPlugin\<close> is asynchronous. It runs without interruption up to its first
  \<open>await\<close> (of \<open>unlink\<close> when an entry of the same name was found, of \<open>copyFile\<close>
  otherwise), having already filtered the old entry out; it pushes the new entry when it is
  resumed after \<open>copyFile\<close>. Other calls can run in between. What the call keeps across
  the suspension are its local variables.
\<close>

record PendingInstall =
  pending_load :: LoadResult
  pending_old :: "RegisteredPlugin option"
  pending_filename :: string

definition installBegin ::
  "Env \<Rightarrow> string \<Rightarrow> string \<Rightarrow> Registry \<Rightarrow> string \<Rightarrow> string \<Rightarrow> InstallPluginConfig option
     \<Rightarrow> Registry \<times> (InstallPluginResult outcome + PendingInstall)"
where
  "installBegin env nanoid filename reg pluginCode pluginPath config =
     (if pluginCode = []
      then (reg, Inl (Returns \<lparr> success = False, message = Some ''Plugin code is empty'',
                                 pluginName = JUndefined, pluginHash = None \<rparr>))
      else
        (let r = loadFromCode env nanoid pluginCode pluginPath
         in case find (\<lambda>p. hash p = loaded_hash r) (plugins reg) of
              Some existingPlugin \<Rightarrow>
                (reg, Inl (Returns \<lparr> success = True, message = Some ''Plugin is already installed'',
                                      pluginName = loaded_name r, pluginHash = Some (loaded_hash r) \<rparr>))
            | None \<Rightarrow>
                (let existingPluginWithSameName = find (\<lambda>p. name p = loaded_name r) (plugins reg);
                     compared =
                       (case existingPluginWithSameName of
                          None \<Rightarrow> Returns False
                        | Some old \<Rightarrow>
                            if checksVersion config
                            then (case compare env (versionOrZero (version (rp_instance old)))
                                          (versionOrZero (version (loaded_instance r))) of
                                    Throws \<Rightarrow> Throws
                                  | Returns c \<Rightarrow> Returns (c \<noteq> 0))
                            else Returns False)
                 in case compared of
                      Throws \<Rightarrow> (reg, Inl Throws)
                    | Returns True \<Rightarrow>
                        (reg, Inl (Returns \<lparr> success = False,
                                        message = Some ''A newer version of the plugin is already installed'',
                                        pluginName = loaded_name r, pluginHash = Some (loaded_hash r) \<rparr>))
                    | Returns False \<Rightarrow>
                        if loaded_state r = Mounted
                        then
                          (reg\<lparr>plugins :=
                                 (case existingPluginWithSameName of
                                    Some old \<Rightarrow> filter (\<lambda>p. hash p \<noteq> hash old) (plugins reg)
                                  | None \<Rightarrow> plugins reg)\<rparr>,
                           Inr \<lparr> pending_load = r, pending_old = existingPluginWithSameName,
                                 pending_filename = filename \<rparr>)
                        else (reg, Inl (Returns \<lparr> success = False,
                                                  message = Some ''Plugin cannot be parsed'',
                                                  pluginName = JUndefined, pluginHash = None \<rparr>)))))"

text \<open>
  The rest of \<open>installPlugin\<close>, on the registry as it is when the call is resumed:
  \<open>this.plugins.length\<close> is read at that moment.
\<close>

definition installResume ::
  "Env \<Rightarrow> bool \<Rightarrow> Registry \<Rightarrow> PendingInstall \<Rightarrow> Registry \<times> InstallPluginResult outcome"
where
  "installResume env copyOk reg pending =
     (let r = pending_load pending;
          newPluginPath = pathConst_pluginPath env @ pending_filename pending @ ''.js''
      in if \<not> copyOk then (reg, Throws)
         else
           (reg\<lparr>plugins := plugins reg @
                 [\<lparr> rp_instance = loaded_instance r, state = loaded_state r,
                    hash = loaded_hash r, name = loaded_name r, path = newPluginPath,
                    meta = \<lparr> enabled = True,
                             order = (case pending_old pending of
                                        Some old \<Rightarrow> order (meta old)
                                      | None \<Rightarrow> length (plugins reg)),
                             meta_userVariables = Map.empty \<rparr> \<rparr>]\<rparr>,
            Returns \<lparr> success = True, message = None,
                      pluginName = loaded_name r, pluginHash = Some (loaded_hash r) \<rparr>))"

definition getAllPlugins :: "Registry \<Rightarrow> RegisteredPlugin list" where
  "getAllPlugins reg = builtinPlugins reg @ plugins reg"

text \<open>\<open>getPluginByName\<close>: the first entry, built-in entries first, whose name is \<open>n\<close>.\<close>

definition getPluginByName :: "Registry \<Rightarrow> JsValue \<Rightarrow> RegisteredPlugin option" where
  "getPluginByName reg n = find (\<lambda>p. name p = n) (getAllPlugins reg)"

text \<open>Changing, in place, the first element that passes a test.\<close>

fun updateFirst :: "('a \<Rightarrow> bool) \<Rightarrow> ('a \<Rightarrow> 'a) \<Rightarrow> 'a list \<Rightarrow> 'a list" where
  "updateFirst P f [] = []"
| "updateFirst P f (x # xs) = (if P x then f x # xs else x # updateFirst P f xs)"

text \<open>
  \<open>setPluginEnabled\<close> writes \<open>meta.enabled\<close> of the object \<open>getPluginByName\<close> found,
  which is an element of one of the two lists.
\<close>

definition setPluginEnabled :: "Registry \<Rightarrow> string \<Rightarrow> bool \<Rightarrow> Registry" where
  "setPluginEnabled reg n en =
     (case getPluginByName reg (JString n) of
        None \<Rightarrow> reg
      | Some plugin \<Rightarrow>
          (let all' = updateFirst (\<lambda>p. name p = JString n)
                        (\<lambda>p. p\<lparr>meta := (meta p)\<lparr>enabled := en\<rparr>\<rparr>) (getAllPlugins reg)
           in reg\<lparr>builtinPlugins := take (length (builtinPlugins reg)) all',
                  plugins := drop (length (builtinPlugins reg)) all'\<rparr>))"

definition isPluginEnabled :: "Registry \<Rightarrow> string \<Rightarrow> bool" where
  "isPluginEnabled reg n =
     (case getPluginByName reg (JString n) of
        None \<Rightarrow> False
      | Some plugin \<Rightarrow> enabled (meta plugin))"



section \<open>plugins/core/PluginManager.ts\<close>

text \<open>
  \<open>getMediaSource\<close> of the manager. The provider's call is the only step that can
  throw, and it is inside the \<open>try\<close>: the method itself always returns.
\<close>

definition managerGetMediaSource :: "Registry \<Rightarrow> MediaItem \<Rightarrow> string \<Rightarrow> MediaSourceResult option" where
  "managerGetMediaSource reg musicItem quality =
     (case getPluginByName reg (item_platform musicItem) of
        None \<Rightarrow> None
      | Some plugin \<Rightarrow>
          if \<not> enabled (meta plugin) then None
          else
            (case getMediaSource (rp_instance plugin) of
               Some f \<Rightarrow>
                 (case f musicItem quality of
                    Throws \<Rightarrow> None
                  | Returns res \<Rightarrow> res)
             | None \<Rightarrow>
                 (case item_url musicItem of
                    None \<Rightarrow> None
                  | Some u \<Rightarrow> if u \<noteq> [] then Some \<lparr> source_url = u \<rparr> else None)))"

section \<open>Derived notions used in the statements\<close>

text \<open>
  The code yields an object exposing \<open>platform\<close> as a non-empty string.
\<close>

definition yieldsPlatform :: "Env \<Rightarrow> string \<Rightarrow> bool" where
  "yieldsPlatform env pluginCode =
     (case getInstance env pluginCode of
        Inl e \<Rightarrow> False
      | Inr None \<Rightarrow> False
      | Inr (Some i) \<Rightarrow>
          (case platform i of
             JString s \<Rightarrow> s \<noteq> []
           | other \<Rightarrow> False))"

text \<open>
  What \<open>validatePlugin\<close> tests instead: the code yields an object whose \<open>platform\<close> is
  truthy, a string or not.
\<close>

definition passesPlatformTest :: "Env \<Rightarrow> string \<Rightarrow> bool" where
  "passesPlatformTest env pluginCode =
     (case getInstance env pluginCode of
        Inl e \<Rightarrow> False
      | Inr None \<Rightarrow> False
      | Inr (Some i) \<Rightarrow> jsTruthy (platform i))"

text \<open>
  The version check comes before the platform check and can pre-empt it: the instance
  declares a non-empty version that the host version does not satisfy.
\<close>

definition versionRejected :: "Env \<Rightarrow> string \<Rightarrow> bool" where
  "versionRejected env pluginCode =
     (case getInstance env pluginCode of
        Inl e \<Rightarrow> False
      | Inr None \<Rightarrow> False
      | Inr (Some i) \<Rightarrow>
          (case version i of
             None \<Rightarrow> False
           | Some v \<Rightarrow> v \<noteq> [] \<and> \<not> satisfies env (getVersion env) v))"

text \<open>Running the code throws a value that carries an \<open>errorReason\<close> or an \<open>instance\<close>.\<close>

definition throwsTagged :: "Env \<Rightarrow> string \<Rightarrow> bool" where
  "throwsTagged env pluginCode =
     (case getInstance env pluginCode of
        Inl e \<Rightarrow> thrown_errorReason e \<noteq> None \<or> thrown_instance e \<noteq> None
      | Inr inst \<Rightarrow> False)"

text \<open>
  What one plugin adds in its round of the loop of \<open>searchAll\<close>: the tracks it appends,
  and whether it sets \<open>hasMoreOverall\<close>.
\<close>

definition contribution :: "string \<Rightarrow> nat \<Rightarrow> SupportMediaType \<Rightarrow> ManagedPlugin \<Rightarrow> Track list" where
  "contribution searchText page ty plugin = fst (searchStep searchText page ty ([], False) plugin)"

definition reportsMore :: "string \<Rightarrow> nat \<Rightarrow> SupportMediaType \<Rightarrow> ManagedPlugin \<Rightarrow> bool" where
  "reportsMore searchText page ty plugin = snd (searchStep searchText page ty ([], False) plugin)"

text \<open>
  The items the search of a plugin returned for the query, as the loop of \<open>searchAll\<close>
  receives them: none when the plugin has no instance or no \<open>search\<close>, is disabled, when
  the call throws, or when the result has no \<open>data\<close>.
\<close>

definition returnedItems :: "string \<Rightarrow> nat \<Rightarrow> SupportMediaType \<Rightarrow> ManagedPlugin \<Rightarrow> MediaItem list" where
  "returnedItems searchText page ty plugin =
     (case mp_instance plugin of
        None \<Rightarrow> []
      | Some inst \<Rightarrow>
          (case search inst of
             None \<Rightarrow> []
           | Some f \<Rightarrow>
               if isEnabled (userConfig plugin) = Some False then []
               else (case f searchText page ty of
                       Throws \<Rightarrow> []
                     | Returns result \<Rightarrow> (case data result of None \<Rightarrow> [] | Some items \<Rightarrow> items))))"

text \<open>
  Of the items of one provider, the first one seen for every id, in the order of the
  list; \<open>seen\<close> holds the ids met so far.
\<close>

fun firstById :: "string set \<Rightarrow> MediaItem list \<Rightarrow> MediaItem list" where
  "firstById seen [] = []"
| "firstById seen (x # xs) =
     (if item_id x \<in> seen then firstById seen xs
      else x # firstById (insert (item_id x) seen) xs)"

text \<open>The same on tracks, by the pair of \<open>id\<close> and \<open>platform\<close>.\<close>

fun keepFirst :: "(string \<times> string) set \<Rightarrow> Track list \<Rightarrow> Track list" where
  "keepFirst seen [] = []"
| "keepFirst seen (t # ts) =
     (if (track_id t, track_platform t) \<in> seen then keepFirst seen ts
      else t # keepFirst (insert (track_id t, track_platform t) seen) ts)"


section \<open>Sample providers, managers and registries\<close>

definition song :: "string \<Rightarrow> string \<Rightarrow> MediaItem" where
  "song i t =
     \<lparr> item_id = i, item_title = Some t, item_name = None, item_artist = Some ''Singer'',
       item_artwork = None, item_avatar = None, item_url = None, item_platform = JUndefined \<rparr>"

definition provider :: "string \<Rightarrow> string \<Rightarrow> (string \<Rightarrow> nat \<Rightarrow> SupportMediaType \<Rightarrow> SearchResult outcome) option
    \<Rightarrow> IPluginInterface" where
  "provider n v s =
     \<lparr> platform = JString n, version = Some v, supportedSearchType = None, userVariables = None,
       search = s, getMediaSource = None, getAlbumInfo = None \<rparr>"

definition managed :: "string \<Rightarrow> (string \<rightharpoonup> string) \<Rightarrow> IPluginInterface \<Rightarrow> string \<times> ManagedPlugin" where
  "managed n vars inst =
     (n, \<lparr> mp_platform = n, mp_id = n, filePath = ''plugins/'' @ n @ ''.js'',
           userConfig = \<lparr> cfg_userVariables = Some vars, isEnabled = Some True \<rparr>,
           mp_instance = Some inst \<rparr>)"

text \<open>Provider A answers two items and \<open>isEnd: false\<close>; B answers no item; C throws.\<close>

definition searchA :: "MediaItem list \<Rightarrow> string \<Rightarrow> nat \<Rightarrow> SupportMediaType \<Rightarrow> SearchResult outcome" where
  "searchA items query page ty = Returns \<lparr> isEnd = Some False, data = Some items \<rparr>"

definition searchB :: "string \<Rightarrow> nat \<Rightarrow> SupportMediaType \<Rightarrow> SearchResult outcome" where
  "searchB query page ty = Returns \<lparr> isEnd = Some False, data = Some [] \<rparr>"

definition searchC :: "string \<Rightarrow> nat \<Rightarrow> SupportMediaType \<Rightarrow> SearchResult outcome" where
  "searchC query page ty = Throws"

definition pluginA :: "MediaItem list \<Rightarrow> ManagedPlugin" where
  "pluginA items = snd (managed ''A'' (Map.empty(''token'' \<mapsto> ''old'')) (provider ''A'' ''1.0.0'' (Some (searchA items))))"

definition pluginB :: ManagedPlugin where
  "pluginB = snd (managed ''B'' Map.empty (provider ''B'' ''1.0.0'' (Some searchB)))"

definition pluginC :: ManagedPlugin where
  "pluginC = snd (managed ''C'' Map.empty (provider ''C'' ''1.0.0'' (Some searchC)))"

definition threeProviders :: "MediaItem list \<Rightarrow> ManagerState" where
  "threeProviders items =
     \<lparr> mgr_plugins = [(''A'', pluginA items), (''B'', pluginB), (''C'', pluginC)],
       persist = Map.empty \<rparr>"

text \<open>
  Two providers: A answers two items of id \<open>1\<close>, D answers one item of the same id.
\<close>

definition pluginNamed :: "string \<Rightarrow> MediaItem list \<Rightarrow> ManagedPlugin" where
  "pluginNamed n items = snd (managed n Map.empty (provider n ''1.0.0'' (Some (searchA items))))"

definition twoProviders :: ManagerState where
  "twoProviders =
     \<lparr> mgr_plugins =
         [(''A'', pluginNamed ''A'' [song ''1'' ''First'', song ''1'' ''Second'']),
          (''D'', pluginNamed ''D'' [song ''1'' ''Other''])],
       persist = Map.empty \<rparr>"

text \<open>
  A stand-in for \<open>semver\<close> on plain \<open>MAJOR.MINOR.PATCH\<close> versions: \<open>compare\<close> orders the
  three numbers lexicographically and throws on anything else; \<open>satisfies\<close> takes a plain
  version as the range holding that version only.
\<close>

fun splitDots :: "string \<Rightarrow> string list" where
  "splitDots [] = [[]]"
| "splitDots (c # cs) =
     (if c = CHR ''.'' then [] # splitDots cs
      else (case splitDots cs of
              [] \<Rightarrow> [[c]]
            | w # ws \<Rightarrow> (c # w) # ws))"

definition digitValue :: "char \<Rightarrow> nat option" where
  "digitValue c = map_of (zip ''0123456789'' [0, 1, 2, 3, 4, 5, 6, 7, 8, 9]) c"

fun parseNumber :: "nat \<Rightarrow> string \<Rightarrow> nat option" where
  "parseNumber acc [] = Some acc"
| "parseNumber acc (c # cs) =
     (case digitValue c of
        None \<Rightarrow> None
      | Some d \<Rightarrow> parseNumber (10 * acc + d) cs)"

definition parseVersion :: "string \<Rightarrow> (nat \<times> nat \<times> nat) option" where
  "parseVersion s =
     (case splitDots s of
        [a, b, c] \<Rightarrow>
          (if a = [] \<or> b = [] \<or> c = [] then None
           else (case (parseNumber 0 a, parseNumber 0 b, parseNumber 0 c) of
                   (Some x, Some y, Some z) \<Rightarrow> Some (x, y, z)
                 | _ \<Rightarrow> None))
      | _ \<Rightarrow> None)"

definition semverCompare :: "string \<Rightarrow> string \<Rightarrow> int outcome" where
  "semverCompare a b =
     (case (parseVersion a, parseVersion b) of
        (Some (x, y, z), Some (x', y', z')) \<Rightarrow>
          Returns (if (x, y, z) = (x', y', z') then 0
                   else if x < x' \<or> (x = x' \<and> (y < y' \<or> (y = y' \<and> z < z'))) then - 1
                   else 1)
      | _ \<Rightarrow> Throws)"

text \<open>
  A host of version \<open>3.0.0\<close> whose engine knows six plugin sources: a provider
  \<open>demo\<close> at versions \<open>3.0.0\<close> and \<open>2.0.0\<close>, two objects without \<open>platform\<close>, one
  of them declaring version \<open>9.9.9\<close>, an object whose \<open>platform\<close> is the number \<open>5\<close>, and
  a source that throws an object carrying an \<open>errorReason\<close> of its own. Any other code
  is a syntax error.
\<close>

definition sampleEnv :: Env where
  "sampleEnv =
     \<lparr> runModule = (\<lambda>code.
         if code = ''demo-3.0.0'' then Inr (ExportsObject None (provider ''demo'' ''3.0.0'' None))
         else if code = ''demo-2.0.0'' then Inr (ExportsObject None (provider ''demo'' ''2.0.0'' None))
         else if code = ''nameless'' then
           Inr (ExportsObject None ((provider [] [] None)\<lparr>platform := JUndefined, version := None\<rparr>))
         else if code = ''nameless-9.9.9'' then
           Inr (ExportsObject None ((provider [] ''9.9.9'' None)\<lparr>platform := JUndefined\<rparr>))
         else if code = ''platform-5'' then
           Inr (ExportsObject None ((provider [] [] None)\<lparr>platform := JNumber 5, version := None\<rparr>))
         else if code = ''throws-tagged'' then
           Inl \<lparr> thrown_errorReason = Some VersionNotMatch, thrown_instance = None \<rparr>
         else Inl plainError),
       runBare = (\<lambda>code. Inr None),
       satisfies = (\<lambda>v wanted. wanted = v),
       compare = semverCompare,
       getVersion = ''3.0.0'',
       pathConst_pluginPath = ''/plugins/'' \<rparr>"


definition emptyRegistry :: Registry where
  "emptyRegistry = \<lparr> plugins = [], builtinPlugins = [], initialized = False \<rparr>"

text \<open>The registry after \<open>demo\<close> \<open>3.0.0\<close> was installed with hash \<open>h\<close> and file name \<open>f\<close>.\<close>

definition demoInstalled :: "string \<Rightarrow> string \<Rightarrow> Registry" where
  "demoInstalled h f =
     \<lparr> plugins =
         [\<lparr> rp_instance = provider ''demo'' ''3.0.0'' None, state = Mounted, hash = h,
            name = JString ''demo'', path = ''/plugins/'' @ f @ ''.js'',
            meta = \<lparr> enabled = True, order = 0, meta_userVariables = Map.empty \<rparr> \<rparr>],
       builtinPlugins = [], initialized = False \<rparr>"

text \<open>A track as \<open>searchAll\<close> hands it out when the provider gave no address: \<open>url\<close> is \<open>''\<close>.\<close>

definition demoItem :: "string option \<Rightarrow> MediaItem" where
  "demoItem u =
     \<lparr> item_id = ''1'', item_title = Some ''Song'', item_name = None, item_artist = None,
       item_artwork = None, item_avatar = None, item_url = u, item_platform = JString ''demo'' \<rparr>"

section \<open>The loop and the filter of searchAll\<close>

lemma searchStep_split:
  "searchStep q pg ty acc p = (fst acc @ contribution q pg ty p, snd acc \<or> reportsMore q pg ty p)"
  by (cases acc) (simp add: searchStep_def contribution_def reportsMore_def split: option.splits outcome.splits)

lemma searchLoop_split:
  "searchLoop q pg ty acc ps =
     (fst acc @ concat (map (contribution q pg ty) ps), snd acc \<or> (\<exists>p\<in>set ps. reportsMore q pg ty p))"
  by (induction ps arbitrary: acc) (auto simp: searchStep_split)

lemma searchAll_split:
  "searchAll m q pg ty =
     \<lparr> result_data = uniqueResults (concat (map (contribution q pg (mapSearchType ty)) (getActivePlugins m))),
       hasMore = (\<exists>p\<in>set (getActivePlugins m). reportsMore q pg (mapSearchType ty) p) \<rparr>"
  by (simp add: searchAll_def searchLoop_split Let_def)

lemma reportsMore_iff:
  "reportsMore q pg ty p \<longleftrightarrow>
     (\<exists>inst f r items. mp_instance p = Some inst \<and> search inst = Some f \<and>
        isEnabled (userConfig p) \<noteq> Some False \<and>
        f q pg ty = Returns r \<and> data r = Some items \<and> items \<noteq> [] \<and> isEnd r = Some False)"
  by (auto simp: reportsMore_def searchStep_def split: option.splits outcome.splits)

lemma findIndex_ge: "findIndex P xs \<ge> - 1"
  by (induction xs) (auto simp: Let_def)

lemma findIndex_first:
  "i < length xs \<Longrightarrow> P (xs ! i) \<Longrightarrow> findIndex P xs = int i \<longleftrightarrow> (\<forall>j<i. \<not> P (xs ! j))"
proof (induction xs arbitrary: i)
  case Nil
  then show ?case by simp
next
  case (Cons x xs)
  show ?case
  proof (cases i)
    case 0
    with Cons.prems show ?thesis by simp
  next
    case (Suc k)
    with Cons.prems have k: "k < length xs" "P (xs ! k)" by simp_all
    from Cons.IH[OF k] have IH: "findIndex P xs = int k \<longleftrightarrow> (\<forall>j<k. \<not> P (xs ! j))" .
    show ?thesis
    proof (cases "P x")
      case True
      then show ?thesis using Suc by auto
    next
      case False
      have "findIndex P (x # xs) = int i \<longleftrightarrow> findIndex P xs = int k"
        using False Suc findIndex_ge[of P xs] by (auto simp: Let_def)
      also have "\<dots> \<longleftrightarrow> (\<forall>j<k. \<not> P (xs ! j))" by (rule IH)
      also have "\<dots> \<longleftrightarrow> (\<forall>j<i. \<not> P ((x # xs) ! j))"
        using False Suc by (auto simp: nth_Cons split: nat.splits)
      finally show ?thesis .
    qed
  qed
qed

lemma enumerate_0: "enumerate 0 xs = map (\<lambda>i. (i, xs ! i)) [0..<length xs]"
  by (rule nth_equalityI) (simp_all add: nth_enumerate_eq)

lemma uniqueResults_index:
  "uniqueResults xs =
     map (\<lambda>i. xs ! i)
       (filter (\<lambda>i. \<forall>j<i. \<not> (track_id (xs ! j) = track_id (xs ! i) \<and> track_platform (xs ! j) = track_platform (xs ! i)))
          [0..<length xs])"
proof -
  have "filter (\<lambda>(index, track). int index = findIndex (\<lambda>t. track_id t = track_id track \<and> track_platform t = track_platform track) xs)
          (map (\<lambda>i. (i, xs ! i)) [0..<length xs])
        = map (\<lambda>i. (i, xs ! i)) (filter (\<lambda>i. \<forall>j<i. \<not> (track_id (xs ! j) = track_id (xs ! i) \<and> track_platform (xs ! j) = track_platform (xs ! i))) [0..<length xs])"
    unfolding filter_map
    apply (rule arg_cong[where f = "map _"])
    apply (rule filter_cong[OF refl])
    subgoal for i
      using findIndex_first[of i xs "\<lambda>t. track_id t = track_id (xs ! i) \<and> track_platform t = track_platform (xs ! i)"]
      by (auto simp: o_def)
    done
  then show ?thesis
    by (simp add: uniqueResults_def enumerate_0 o_def)
qed

lemma uniqueResults_two:
  "track_id a \<noteq> track_id b \<or> track_platform a \<noteq> track_platform b \<Longrightarrow> uniqueResults [a, b] = [a, b]"
  by (auto simp: uniqueResults_def enumerate_eq_zip upt_rec[of 0] upt_rec[of 1] upt_rec[of "Suc _"] Let_def)

lemma uniqueResults_two_same:
  "track_id a = track_id b \<Longrightarrow> track_platform a = track_platform b \<Longrightarrow> uniqueResults [a, b] = [a]"
  by (simp add: uniqueResults_def enumerate_eq_zip upt_rec[of 0] upt_rec[of 1] upt_rec[of "Suc _"])

lemma concat_single:
  "distinct (map g ps) \<Longrightarrow> x \<in> set ps \<Longrightarrow> \<forall>y\<in>set ps. y \<noteq> x \<longrightarrow> f y = [] \<Longrightarrow>
   concat (map f ps) = f x"
proof (induction ps)
  case Nil
  then show ?case by simp
next
  case (Cons p ps)
  show ?case
  proof (cases "p = x")
    case True
    with Cons.prems have "x \<notin> set ps" by (auto simp: image_iff)
    with Cons.prems have "\<forall>y\<in>set ps. f y = []" by auto
    then have "concat (map f ps) = []" by simp
    with True show ?thesis by simp
  next
    case False
    with Cons.prems have "f p = []" "x \<in> set ps" "distinct (map g ps)" "\<forall>y\<in>set ps. y \<noteq> x \<longrightarrow> f y = []"
      by auto
    with Cons.IH show ?thesis by simp
  qed
qed

lemma active_three: "getActivePlugins (threeProviders items) = [pluginA items, pluginB, pluginC]"
  by (simp add: getActivePlugins_def threeProviders_def pluginA_def pluginB_def pluginC_def managed_def)

section \<open>Aggregated search\<close>

text \<open>
  C1 (as amended). Three active providers with distinct platforms, in any order of the
  manager's map: A's search returns the two items \<open>x\<close> and \<open>y\<close>, whose ids differ, with
  \<open>isEnd: false\<close>; B's search returns no item (an empty or missing \<open>data\<close>); C's search
  throws. Then \<open>searchAll\<close>
  returns exactly the two tracks made from \<open>x\<close> and \<open>y\<close>, in that order, each with A's
  platform, and \<open>hasMore\<close> is true. \<open>searchAll\<close> has no throwing path: the exception of C
  is caught inside the loop.
\<close>

theorem searchAll_three_providers:
  assumes ps: "set (getActivePlugins m) = {pa, pb, pc}"
      and dist: "distinct (map mp_platform (getActivePlugins m))"
      and A: "mp_instance pa = Some ia" "search ia = Some fa"
             "fa searchText page (mapSearchType ty) = Returns ra"
             "data ra = Some [x, y]" "isEnd ra = Some False"
      and ids: "item_id x \<noteq> item_id y"
      and B: "mp_instance pb = Some ib" "search ib = Some fb"
             "fb searchText page (mapSearchType ty) = Returns rb"
             "data rb = None \<or> data rb = Some []"
      and C: "mp_instance pc = Some ic" "search ic = Some fc"
             "fc searchText page (mapSearchType ty) = Throws"
  shows "searchAll m searchText page ty =
           \<lparr> result_data = [toTrack pa (mapSearchType ty) x, toTrack pa (mapSearchType ty) y],
             hasMore = True \<rparr>
         \<and> (\<forall>t \<in> set (result_data (searchAll m searchText page ty)). track_platform t = mp_platform pa)"
proof -
  let ?T = "mapSearchType ty"
  have pa_in: "pa \<in> set (getActivePlugins m)" using ps by simp
  then have en: "isEnabled (userConfig pa) \<noteq> Some False" by (simp add: getActivePlugins_def)
  have ca: "contribution searchText page ?T pa = [toTrack pa ?T x, toTrack pa ?T y]"
    using A en by (simp add: contribution_def searchStep_def)
  have cb: "contribution searchText page ?T pb = []"
    using B by (auto simp: contribution_def searchStep_def)
  have cc: "contribution searchText page ?T pc = []"
    using C by (simp add: contribution_def searchStep_def)
  have "\<forall>p\<in>set (getActivePlugins m). p \<noteq> pa \<longrightarrow> contribution searchText page ?T p = []"
    using ps cb cc by auto
  from concat_single[OF dist pa_in this]
  have agg: "concat (map (contribution searchText page ?T) (getActivePlugins m)) = [toTrack pa ?T x, toTrack pa ?T y]"
    using ca by simp
  have more: "reportsMore searchText page ?T pa"
    using A en by (simp add: reportsMore_def searchStep_def)
  have uq: "uniqueResults [toTrack pa ?T x, toTrack pa ?T y] = [toTrack pa ?T x, toTrack pa ?T y]"
    by (rule uniqueResults_two) (simp add: toTrack_def ids)
  have eq: "searchAll m searchText page ty =
           \<lparr> result_data = [toTrack pa ?T x, toTrack pa ?T y], hasMore = True \<rparr>"
    using agg uq more pa_in by (auto simp: searchAll_split)
  show ?thesis unfolding eq by (simp add: toTrack_def)
qed

theorem searchAll_three_providers_witness:
  "searchAll (threeProviders [song ''1'' ''First'', song ''2'' ''Second'']) ''q'' 1 Songs =
     \<lparr> result_data = [toTrack (pluginA [song ''1'' ''First'', song ''2'' ''Second'']) Music (song ''1'' ''First''),
                       toTrack (pluginA [song ''1'' ''First'', song ''2'' ''Second'']) Music (song ''2'' ''Second'')],
       hasMore = True \<rparr>"
proof -
  let ?items = "[song ''1'' ''First'', song ''2'' ''Second'']"
  have "searchAll (threeProviders ?items) ''q'' 1 Songs =
           \<lparr> result_data = [toTrack (pluginA ?items) (mapSearchType Songs) (song ''1'' ''First''),
                             toTrack (pluginA ?items) (mapSearchType Songs) (song ''2'' ''Second'')],
             hasMore = True \<rparr>
         \<and> (\<forall>t \<in> set (result_data (searchAll (threeProviders ?items) ''q'' 1 Songs)).
               track_platform t = mp_platform (pluginA ?items))"
  proof (rule searchAll_three_providers[where pb = pluginB and pc = pluginC])
    show "set (getActivePlugins (threeProviders ?items)) = {pluginA ?items, pluginB, pluginC}"
      by (simp add: active_three)
    show "distinct (map mp_platform (getActivePlugins (threeProviders ?items)))"
      by (simp add: active_three pluginA_def pluginB_def pluginC_def managed_def)
    show "mp_instance (pluginA ?items) = Some (provider ''A'' ''1.0.0'' (Some (searchA ?items)))"
      by (simp add: pluginA_def managed_def)
    show "search (provider ''A'' ''1.0.0'' (Some (searchA ?items))) = Some (searchA ?items)"
      by (simp add: provider_def)
    show "searchA ?items ''q'' 1 (mapSearchType Songs) = Returns \<lparr> isEnd = Some False, data = Some ?items \<rparr>"
      by (simp add: searchA_def)
    show "data \<lparr> isEnd = Some False, data = Some ?items \<rparr> = Some [song ''1'' ''First'', song ''2'' ''Second'']"
      by simp
    show "isEnd \<lparr> isEnd = Some False, data = Some ?items \<rparr> = Some False"
      by simp
    show "item_id (song ''1'' ''First'') \<noteq> item_id (song ''2'' ''Second'')"
      by (simp add: song_def)
    show "mp_instance pluginB = Some (provider ''B'' ''1.0.0'' (Some searchB))"
      by (simp add: pluginB_def managed_def)
    show "search (provider ''B'' ''1.0.0'' (Some searchB)) = Some searchB"
      by (simp add: provider_def)
    show "searchB ''q'' 1 (mapSearchType Songs) = Returns \<lparr> isEnd = Some False, data = Some [] \<rparr>"
      by (simp add: searchB_def)
    show "data \<lparr> isEnd = Some False, data = Some [] \<rparr> = None
          \<or> data \<lparr> isEnd = Some False, data = Some [] \<rparr> = Some []"
      by simp
    show "mp_instance pluginC = Some (provider ''C'' ''1.0.0'' (Some searchC))"
      by (simp add: pluginC_def managed_def)
    show "search (provider ''C'' ''1.0.0'' (Some searchC)) = Some searchC"
      by (simp add: provider_def)
    show "searchC ''q'' 1 (mapSearchType Songs) = Throws"
      by (simp add: searchC_def)
  qed
  then show ?thesis by simp
qed

text \<open>
  C1 as stated fails when the two items of A carry the same id: the filter keeps the
  first of them only, and the result holds one track, not two.
\<close>

theorem searchAll_same_id_counterexample:
  "result_data (searchAll (threeProviders [song ''1'' ''First'', song ''1'' ''Second'']) ''q'' 1 Songs) =
     [toTrack (pluginA [song ''1'' ''First'', song ''1'' ''Second'']) Music (song ''1'' ''First'')]
   \<and> length (result_data (searchAll (threeProviders [song ''1'' ''First'', song ''1'' ''Second'']) ''q'' 1 Songs)) \<noteq> 2"
proof -
  let ?items = "[song ''1'' ''First'', song ''1'' ''Second'']"
  have a: "contribution ''q'' pg Music (pluginA ?items) =
             [toTrack (pluginA ?items) Music (song ''1'' ''First''), toTrack (pluginA ?items) Music (song ''1'' ''Second'')]" for pg
    by (simp add: contribution_def searchStep_def pluginA_def managed_def provider_def searchA_def)
  have b: "contribution ''q'' pg Music pluginB = []" for pg
    by (simp add: contribution_def searchStep_def pluginB_def managed_def provider_def searchB_def)
  have c: "contribution ''q'' pg Music pluginC = []" for pg
    by (simp add: contribution_def searchStep_def pluginC_def managed_def provider_def searchC_def)
  have u: "uniqueResults [toTrack (pluginA ?items) Music (song ''1'' ''First''), toTrack (pluginA ?items) Music (song ''1'' ''Second'')]
           = [toTrack (pluginA ?items) Music (song ''1'' ''First'')]"
    by (rule uniqueResults_two_same) (simp_all add: toTrack_def song_def)
  have "result_data (searchAll (threeProviders ?items) ''q'' 1 Songs) =
     [toTrack (pluginA ?items) Music (song ''1'' ''First'')]"
    by (simp add: searchAll_split active_three a b c u)
  then show ?thesis by simp
qed

text \<open>
  C2. The \<open>hasMore\<close> flag of \<open>searchAll\<close> is true if and only if some active provider
  contributed (its search returned a non-empty \<open>data\<close>) and explicitly returned
  \<open>isEnd === false\<close>. A provider that throws, omits \<open>isEnd\<close>, returns \<open>isEnd: true\<close> or
  returns no data is no such provider.
\<close>

theorem searchAll_hasMore_iff:
  "hasMore (searchAll m searchText page ty) \<longleftrightarrow>
     (\<exists>p \<in> set (getActivePlugins m). \<exists>inst f r items.
        mp_instance p = Some inst \<and> search inst = Some f \<and>
        f searchText page (mapSearchType ty) = Returns r \<and>
        data r = Some items \<and> items \<noteq> [] \<and> isEnd r = Some False)"
  by (auto simp: searchAll_split reportsMore_iff getActivePlugins_def)

theorem searchAll_hasMore_iff_witness:
  "hasMore (searchAll (threeProviders [song ''1'' ''First'', song ''2'' ''Second'']) ''q'' 1 Songs)
   \<and> \<not> hasMore (searchAll (threeProviders []) ''q'' 1 Songs)"
proof
  let ?items = "[song ''1'' ''First'', song ''2'' ''Second'']"
  have "\<exists>inst f r items.
        mp_instance (pluginA ?items) = Some inst \<and> search inst = Some f \<and>
        f ''q'' 1 (mapSearchType Songs) = Returns r \<and>
        data r = Some items \<and> items \<noteq> [] \<and> isEnd r = Some False"
    by (simp add: pluginA_def managed_def provider_def searchA_def)
  then have "\<exists>p \<in> set (getActivePlugins (threeProviders ?items)). \<exists>inst f r items.
        mp_instance p = Some inst \<and> search inst = Some f \<and>
        f ''q'' 1 (mapSearchType Songs) = Returns r \<and>
        data r = Some items \<and> items \<noteq> [] \<and> isEnd r = Some False"
    unfolding active_three by (intro bexI[of _ "pluginA ?items"]) simp_all
  then show "hasMore (searchAll (threeProviders ?items) ''q'' 1 Songs)"
    unfolding searchAll_hasMore_iff .
next
  have "\<not> (\<exists>p \<in> set (getActivePlugins (threeProviders [])). \<exists>inst f r items.
        mp_instance p = Some inst \<and> search inst = Some f \<and>
        f ''q'' 1 (mapSearchType Songs) = Returns r \<and>
        data r = Some items \<and> items \<noteq> [] \<and> isEnd r = Some False)"
    by (auto simp: active_three pluginA_def pluginB_def pluginC_def managed_def provider_def
          searchA_def searchB_def searchC_def)
  then show "\<not> hasMore (searchAll (threeProviders []) ''q'' 1 Songs)"
    unfolding searchAll_hasMore_iff .
qed

subsection \<open>The filter as the first item seen for every pair\<close>

lemma index_filter_keepFirst:
  "map (\<lambda>i. xs ! i)
     (filter (\<lambda>i. (track_id (xs ! i), track_platform (xs ! i)) \<notin> seen \<and>
                  (\<forall>j<i. \<not> (track_id (xs ! j) = track_id (xs ! i) \<and> track_platform (xs ! j) = track_platform (xs ! i))))
        [0..<length xs])
   = keepFirst seen xs"
proof (induction xs arbitrary: seen)
  case Nil
  then show ?case by simp
next
  case (Cons x xs)
  let ?k = "\<lambda>t. (track_id t, track_platform t)"
  have "[0..<Suc (length xs)] = 0 # [Suc 0..<Suc (length xs)]"
    by (rule upt_conv_Cons) simp
  then have up: "[0..<length (x # xs)] = 0 # map Suc [0..<length xs]"
    by (simp only: map_Suc_upt length_Cons)
  have tl: "map (\<lambda>i. (x # xs) ! i)
              (filter (\<lambda>i. ?k ((x # xs) ! i) \<notin> seen \<and>
                  (\<forall>j<i. \<not> (track_id ((x # xs) ! j) = track_id ((x # xs) ! i) \<and> track_platform ((x # xs) ! j) = track_platform ((x # xs) ! i))))
                 (map Suc [0..<length xs]))
            = map (\<lambda>i. xs ! i)
              (filter (\<lambda>i. ?k (xs ! i) \<notin> (if ?k x \<in> seen then seen else insert (?k x) seen) \<and>
                  (\<forall>j<i. \<not> (track_id (xs ! j) = track_id (xs ! i) \<and> track_platform (xs ! j) = track_platform (xs ! i))))
                 [0..<length xs])"
    unfolding filter_map map_map
    apply (rule arg_cong2[where f = map])
     apply (simp add: fun_eq_iff)
    apply (rule filter_cong[OF refl])
    apply (auto simp: All_less_Suc2)
    done
  show ?case
    unfolding up
    using tl Cons.IH[of "if ?k x \<in> seen then seen else insert (?k x) seen"]
    by (auto simp del: upt_Suc)
qed

lemma uniqueResults_keepFirst: "uniqueResults xs = keepFirst {} xs"
  using index_filter_keepFirst[of xs "{}"] by (simp add: uniqueResults_index)

lemma keepFirst_append:
  "keepFirst seen (xs @ ys) =
     keepFirst seen xs @ keepFirst (seen \<union> (\<lambda>t. (track_id t, track_platform t)) ` set xs) ys"
proof (induction xs arbitrary: seen)
  case Nil
  then show ?case by simp
next
  case (Cons x xs)
  have "insert (track_id x, track_platform x) seen \<union> (\<lambda>t. (track_id t, track_platform t)) ` set xs
        = seen \<union> (\<lambda>t. (track_id t, track_platform t)) ` set (x # xs)"
    by auto
  moreover have "(track_id x, track_platform x) \<in> seen \<Longrightarrow>
        seen \<union> (\<lambda>t. (track_id t, track_platform t)) ` set xs
        = seen \<union> (\<lambda>t. (track_id t, track_platform t)) ` set (x # xs)"
    by auto
  ultimately show ?case using Cons.IH by simp
qed

lemma keepFirst_irrelevant:
  "\<forall>t \<in> set ts. (track_id t, track_platform t) \<notin> extra \<Longrightarrow>
   keepFirst (seen \<union> extra) ts = keepFirst seen ts"
proof (induction ts arbitrary: seen)
  case Nil
  then show ?case by simp
next
  case (Cons t ts)
  from Cons.prems have rest: "\<forall>t \<in> set ts. (track_id t, track_platform t) \<notin> extra"
    and here: "(track_id t, track_platform t) \<notin> extra" by simp_all
  from Cons.IH[OF rest, of seen] Cons.IH[OF rest, of "insert (track_id t, track_platform t) seen"] here
  show ?case by simp
qed

lemma keepFirst_toTrack:
  "keepFirst seen (map (toTrack p ty) items) =
     map (toTrack p ty) (firstById {i. (i, mp_platform p) \<in> seen} items)"
proof (induction items arbitrary: seen)
  case Nil
  then show ?case by simp
next
  case (Cons x xs)
  have key: "(track_id (toTrack p ty x), track_platform (toTrack p ty x)) = (item_id x, mp_platform p)"
    by (simp add: toTrack_def)
  have "{i. (i, mp_platform p) \<in> insert (item_id x, mp_platform p) seen}
        = insert (item_id x) {i. (i, mp_platform p) \<in> seen}"
    by auto
  with Cons.IH key show ?case by simp
qed

lemma keepFirst_blocks:
  assumes "\<forall>p \<in> set ps. \<forall>t \<in> set (blk p). track_platform t = mp_platform p"
      and "distinct (map mp_platform ps)"
      and "\<forall>k \<in> seen. snd k \<notin> mp_platform ` set ps"
  shows "keepFirst seen (concat (map blk ps)) = concat (map (\<lambda>p. keepFirst {} (blk p)) ps)"
  using assms
proof (induction ps arbitrary: seen)
  case Nil
  then show ?case by simp
next
  case (Cons p ps)
  let ?keys = "(\<lambda>t. (track_id t, track_platform t)) ` set (blk p)"
  have own: "\<forall>t \<in> set (blk p). (track_id t, track_platform t) \<notin> seen"
    using Cons.prems(1,3) by force
  have first: "keepFirst seen (blk p) = keepFirst {} (blk p)"
    using keepFirst_irrelevant[OF own, of "{}"] by simp
  have "\<forall>k \<in> seen \<union> ?keys. snd k \<notin> mp_platform ` set ps"
    using Cons.prems by auto
  with Cons.IH[of "seen \<union> ?keys"] Cons.prems
  have rest: "keepFirst (seen \<union> ?keys) (concat (map blk ps)) = concat (map (\<lambda>p. keepFirst {} (blk p)) ps)"
    by simp
  show ?case
    by (simp add: keepFirst_append first rest)
qed

lemma contribution_returned:
  "contribution q pg ty = (\<lambda>p. map (toTrack p ty) (returnedItems q pg ty p))"
  by (rule ext) (simp add: contribution_def searchStep_def returnedItems_def split: option.splits outcome.splits)

lemma searchAll_blocks:
  assumes "distinct (map mp_platform (getActivePlugins m))"
  shows "result_data (searchAll m q pg ty) =
     concat (map (\<lambda>p. map (toTrack p (mapSearchType ty))
                        (firstById {} (returnedItems q pg (mapSearchType ty) p)))
               (getActivePlugins m))"
proof -
  let ?T = "mapSearchType ty"
  let ?blk = "\<lambda>p. map (toTrack p ?T) (returnedItems q pg ?T p)"
  have plat: "\<forall>p \<in> set (getActivePlugins m). \<forall>t \<in> set (?blk p). track_platform t = mp_platform p"
    by (auto simp: toTrack_def)
  have "result_data (searchAll m q pg ty) = keepFirst {} (concat (map ?blk (getActivePlugins m)))"
    by (simp add: searchAll_split uniqueResults_keepFirst contribution_returned)
  also have "\<dots> = concat (map (\<lambda>p. keepFirst {} (?blk p)) (getActivePlugins m))"
    by (rule keepFirst_blocks[OF plat assms]) simp
  also have "\<dots> = concat (map (\<lambda>p. map (toTrack p ?T) (firstById {} (returnedItems q pg ?T p))) (getActivePlugins m))"
    by (simp add: keepFirst_toTrack)
  finally show ?thesis .
qed

lemma firstById_find:
  assumes "x \<in> set items" and "item_id x \<notin> seen"
  shows "\<exists>x'. find (\<lambda>y. item_id y = item_id x) items = Some x' \<and> x' \<in> set (firstById seen items)"
  using assms
proof (induction items arbitrary: seen)
  case Nil
  then show ?case by simp
next
  case (Cons y ys)
  show ?case
  proof (cases "item_id y = item_id x")
    case True
    with Cons.prems show ?thesis by simp
  next
    case False
    with Cons.prems have "x \<in> set ys" by auto
    moreover have "item_id x \<notin> insert (item_id y) seen" using False Cons.prems by auto
    ultimately show ?thesis using Cons.IH[of seen] Cons.IH[of "insert (item_id y) seen"] Cons.prems False
      by auto
  qed
qed

lemma uniqueResults_distinct_keys:
  "distinct (map (\<lambda>t. (track_id t, track_platform t)) (uniqueResults xs))"
proof -
  let ?Q = "\<lambda>i. \<forall>j<i. \<not> (track_id (xs ! j) = track_id (xs ! i) \<and> track_platform (xs ! j) = track_platform (xs ! i))"
  let ?key = "\<lambda>t. (track_id t, track_platform t)"
  have "inj_on (\<lambda>i. ?key (xs ! i)) (set (filter ?Q [0..<length xs]))"
  proof (rule inj_onI)
    fix i j
    assume i: "i \<in> set (filter ?Q [0..<length xs])" and j: "j \<in> set (filter ?Q [0..<length xs])"
       and k: "?key (xs ! i) = ?key (xs ! j)"
    show "i = j"
    proof (rule ccontr)
      assume "i \<noteq> j"
      then consider "i < j" | "j < i" by linarith
      then show False
      proof cases
        case 1
        with j k show ?thesis by auto
      next
        case 2
        with i k show ?thesis by auto
      qed
    qed
  qed
  then show ?thesis
    unfolding uniqueResults_index by (simp add: distinct_map o_def)
qed

lemma active_two:
  "getActivePlugins twoProviders =
     [pluginNamed ''A'' [song ''1'' ''First'', song ''1'' ''Second''], pluginNamed ''D'' [song ''1'' ''Other'']]"
  by (simp add: getActivePlugins_def twoProviders_def pluginNamed_def managed_def)

lemma returned_named:
  "returnedItems q pg ty (pluginNamed n items) = items"
  by (simp add: returnedItems_def pluginNamed_def managed_def provider_def searchA_def)

lemma keepFirst_keeps_pair:
  "t \<in> set ts \<Longrightarrow> (track_id t, track_platform t) \<notin> seen \<Longrightarrow>
   \<exists>u \<in> set (keepFirst seen ts). track_id u = track_id t \<and> track_platform u = track_platform t"
proof (induction ts arbitrary: seen)
  case Nil
  then show ?case by simp
next
  case (Cons a ts)
  show ?case
  proof (cases "(track_id a, track_platform a) = (track_id t, track_platform t)")
    case True
    with Cons.prems show ?thesis by auto
  next
    case False
    with Cons.prems have in_ts: "t \<in> set ts" by auto
    from False Cons.prems have fresh: "(track_id t, track_platform t) \<notin> insert (track_id a, track_platform a) seen"
      by auto
    from Cons.IH[OF in_ts Cons.prems(2)] Cons.IH[OF in_ts fresh] show ?thesis by auto
  qed
qed


text \<open>
  C3. The merged result of \<open>searchAll\<close> is de-duplicated by the pair of \<open>id\<close> and
  \<open>platform\<close>. Whenever the search of an active provider returned an item, the result
  holds a track with the id of that item and the platform of that provider, whatever other
  providers returned under the same id; and no pair of \<open>id\<close> and \<open>platform\<close> occurs twice
  in the result. When the active providers carry distinct platforms (they are the keys of
  the manager's map), the result is, provider after provider, the tracks made from the
  first item of every id among the items that provider returned: of the items of one
  provider with one id, the first seen is the one kept.
\<close>

theorem searchAll_dedup_by_id_and_platform:
  "(\<forall>p \<in> set (getActivePlugins m). \<forall>inst f r items. \<forall>x \<in> set items.
       mp_instance p = Some inst \<and> search inst = Some f \<and>
       f searchText page (mapSearchType ty) = Returns r \<and> data r = Some items \<longrightarrow>
       (\<exists>t \<in> set (result_data (searchAll m searchText page ty)).
           track_id t = item_id x \<and> track_platform t = mp_platform p))
   \<and> distinct (map (\<lambda>t. (track_id t, track_platform t))
                  (result_data (searchAll m searchText page ty)))
   \<and> (distinct (map mp_platform (getActivePlugins m)) \<longrightarrow>
        result_data (searchAll m searchText page ty) =
           concat (map (\<lambda>p. map (toTrack p (mapSearchType ty))
                              (firstById {} (returnedItems searchText page (mapSearchType ty) p)))
                     (getActivePlugins m))
      \<and> (\<forall>p \<in> set (getActivePlugins m). \<forall>inst f r items. \<forall>x \<in> set items.
             mp_instance p = Some inst \<and> search inst = Some f \<and>
             f searchText page (mapSearchType ty) = Returns r \<and> data r = Some items \<longrightarrow>
             (\<exists>x'. find (\<lambda>y. item_id y = item_id x) items = Some x' \<and>
                   toTrack p (mapSearchType ty) x' \<in> set (result_data (searchAll m searchText page ty)))))"
proof -
  let ?T = "mapSearchType ty"
  let ?res = "result_data (searchAll m searchText page ty)"
  have ret: "returnedItems searchText page ?T p = items"
    if "p \<in> set (getActivePlugins m)" "mp_instance p = Some inst" "search inst = Some f"
       "f searchText page ?T = Returns r" "data r = Some items" for p inst f r items
  proof -
    from that(1) have "isEnabled (userConfig p) \<noteq> Some False" by (simp add: getActivePlugins_def)
    with that show ?thesis by (simp add: returnedItems_def)
  qed
  have res: "?res = keepFirst {} (concat (map (\<lambda>p. map (toTrack p ?T) (returnedItems searchText page ?T p))
                                           (getActivePlugins m)))"
    by (simp add: searchAll_split uniqueResults_keepFirst contribution_returned)
  have pair: "\<exists>t \<in> set ?res. track_id t = item_id x \<and> track_platform t = mp_platform p"
    if p: "p \<in> set (getActivePlugins m)" and x: "x \<in> set items"
      and raw: "mp_instance p = Some inst" "search inst = Some f"
               "f searchText page ?T = Returns r" "data r = Some items"
    for p inst f r items x
  proof -
    have "toTrack p ?T x \<in> set (concat (map (\<lambda>p. map (toTrack p ?T) (returnedItems searchText page ?T p))
                                           (getActivePlugins m)))"
      using p x ret[OF p raw] by auto
    from keepFirst_keeps_pair[OF this, of "{}"] show ?thesis
      unfolding res by (auto simp: toTrack_def)
  qed
  have dis: "distinct (map (\<lambda>t. (track_id t, track_platform t)) ?res)"
    by (simp add: searchAll_split uniqueResults_distinct_keys)
  have blocks: "?res = concat (map (\<lambda>p. map (toTrack p ?T) (firstById {} (returnedItems searchText page ?T p)))
                        (getActivePlugins m))"
    if "distinct (map mp_platform (getActivePlugins m))"
    using that by (rule searchAll_blocks)
  have keep: "\<exists>x'. find (\<lambda>y. item_id y = item_id x) items = Some x' \<and> toTrack p ?T x' \<in> set ?res"
    if d: "distinct (map mp_platform (getActivePlugins m))"
      and p: "p \<in> set (getActivePlugins m)" and x: "x \<in> set items"
      and raw: "mp_instance p = Some inst" "search inst = Some f"
               "f searchText page ?T = Returns r" "data r = Some items"
    for p inst f r items x
  proof -
    from firstById_find[OF x, of "{}"] obtain x' where
      x': "find (\<lambda>y. item_id y = item_id x) items = Some x'" "x' \<in> set (firstById {} items)"
      by auto
    have "toTrack p ?T x' \<in> set ?res"
      unfolding blocks[OF d] using p x'(2) ret[OF p raw] by auto
    with x'(1) show ?thesis by blast
  qed
  show ?thesis
    using pair dis blocks keep by blast
qed

theorem searchAll_dedup_by_id_and_platform_witness:
  "result_data (searchAll twoProviders ''q'' 1 Songs) =
     [toTrack (pluginNamed ''A'' [song ''1'' ''First'', song ''1'' ''Second'']) Music (song ''1'' ''First''),
      toTrack (pluginNamed ''D'' [song ''1'' ''Other'']) Music (song ''1'' ''Other'')]"
proof -
  have d: "distinct (map mp_platform (getActivePlugins twoProviders))"
    by (simp add: active_two pluginNamed_def managed_def)
  from searchAll_dedup_by_id_and_platform[of twoProviders "''q''" 1 Songs] d
  have "result_data (searchAll twoProviders ''q'' 1 Songs) =
           concat (map (\<lambda>p. map (toTrack p (mapSearchType Songs))
                              (firstById {} (returnedItems ''q'' 1 (mapSearchType Songs) p)))
                     (getActivePlugins twoProviders))"
    by blast
  also have "\<dots> = [toTrack (pluginNamed ''A'' [song ''1'' ''First'', song ''1'' ''Second'']) Music (song ''1'' ''First''),
      toTrack (pluginNamed ''D'' [song ''1'' ''Other'']) Music (song ''1'' ''Other'')]"
    by (simp add: active_two returned_named song_def)
  finally show ?thesis .
qed

section \<open>The loader\<close>

lemma sampleEnv_fields:
  "pathConst_pluginPath sampleEnv = ''/plugins/''"
  "compare sampleEnv = semverCompare"
  "getVersion sampleEnv = ''3.0.0''"
  "satisfies sampleEnv v wanted = (wanted = v)"
  by (simp_all add: sampleEnv_def)

lemma sampleEnv_getInstance:
  "getInstance sampleEnv ''nameless'' = Inr (Some ((provider [] [] None)\<lparr>platform := JUndefined, version := None\<rparr>))"
  "getInstance sampleEnv ''nameless-9.9.9'' = Inr (Some ((provider [] ''9.9.9'' None)\<lparr>platform := JUndefined\<rparr>))"
  "getInstance sampleEnv ''platform-5'' = Inr (Some ((provider [] [] None)\<lparr>platform := JNumber 5, version := None\<rparr>))"
  "getInstance sampleEnv ''throws-tagged'' = Inl \<lparr> thrown_errorReason = Some VersionNotMatch, thrown_instance = None \<rparr>"
  by (simp_all add: getInstance_def sampleEnv_def)

lemma load_demo_3:
  "loadFromCode sampleEnv h ''demo-3.0.0'' p =
     \<lparr> loaded_instance = provider ''demo'' ''3.0.0'' None, loaded_state = Mounted, errorReason = None,
       loaded_hash = h, loaded_name = JString ''demo'', loaded_path = p \<rparr>"
  by (simp add: loadFromCode_def tryLoad_def getInstance_def validatePlugin_def sampleEnv_def
        provider_def filterUserVariables_def)

lemma load_demo_2:
  "loadFromCode sampleEnv h ''demo-2.0.0'' p =
     \<lparr> loaded_instance = provider ''demo'' ''2.0.0'' None, loaded_state = Error,
       errorReason = Some VersionNotMatch,
       loaded_hash = h, loaded_name = JString ''demo'', loaded_path = p \<rparr>"
  by (simp add: loadFromCode_def tryLoad_def getInstance_def validatePlugin_def sampleEnv_def
        provider_def filterUserVariables_def)

lemma yieldsPlatform_passes: "yieldsPlatform env pluginCode \<Longrightarrow> passesPlatformTest env pluginCode"
  by (auto simp: yieldsPlatform_def passesPlatformTest_def split: sum.splits option.splits JsValue.splits)

text \<open>
  C4 (as amended). Take a source that does not yield an object exposing a non-empty
  \<open>platform\<close> string. \<open>validatePlugin\<close> checks the version first and then only the
  truthiness of \<open>platform\<close>. If the yielded object declares a version the host does not
  satisfy, \<open>loadFromCode\<close> returns state \<open>Error\<close> with reason \<open>VersionNotMatch\<close>, and the
  unit returned is the yielded object. Otherwise, if its \<open>platform\<close> is truthy without being
  a string, the source is accepted: the state is \<open>Mounted\<close>. In every other case the state
  is \<open>Error\<close>; when running the source throws, the reason and the unit are the
  \<open>errorReason\<close> and the \<open>instance\<close> of what was thrown, where it carries them; and when
  nothing of that kind was thrown, the reason is \<open>CannotParse\<close> and the unit returned is
  the dummy instance, whose \<open>search\<close> returns \<open>{isEnd: true, data: []}\<close> for every query.
\<close>

theorem loadFromCode_structural_failure:
  assumes "\<not> yieldsPlatform env pluginCode"
  shows "(versionRejected env pluginCode \<longrightarrow>
            loaded_state (loadFromCode env nanoid pluginCode pluginPath) = Error
          \<and> errorReason (loadFromCode env nanoid pluginCode pluginPath) = Some VersionNotMatch
          \<and> getInstance env pluginCode =
              Inr (Some (loaded_instance (loadFromCode env nanoid pluginCode pluginPath))))
       \<and> (\<not> versionRejected env pluginCode \<and> passesPlatformTest env pluginCode \<longrightarrow>
            loaded_state (loadFromCode env nanoid pluginCode pluginPath) = Mounted
          \<and> errorReason (loadFromCode env nanoid pluginCode pluginPath) = None)
       \<and> (\<not> passesPlatformTest env pluginCode \<longrightarrow>
            loaded_state (loadFromCode env nanoid pluginCode pluginPath) = Error)
       \<and> (\<forall>e. getInstance env pluginCode = Inl e \<longrightarrow>
            errorReason (loadFromCode env nanoid pluginCode pluginPath) =
              Some (case thrown_errorReason e of Some r \<Rightarrow> r | None \<Rightarrow> CannotParse)
          \<and> loaded_instance (loadFromCode env nanoid pluginCode pluginPath) =
              (case thrown_instance e of Some i \<Rightarrow> i | None \<Rightarrow> dummyInstance))
       \<and> (\<not> passesPlatformTest env pluginCode \<and> \<not> versionRejected env pluginCode
            \<and> \<not> throwsTagged env pluginCode \<longrightarrow>
            errorReason (loadFromCode env nanoid pluginCode pluginPath) = Some CannotParse
          \<and> loaded_instance (loadFromCode env nanoid pluginCode pluginPath) = dummyInstance
          \<and> (\<exists>f. search (loaded_instance (loadFromCode env nanoid pluginCode pluginPath)) = Some f
                \<and> (\<forall>query page ty. f query page ty = Returns \<lparr> isEnd = Some True, data = Some [] \<rparr>)))"
proof (cases "getInstance env pluginCode")
  case (Inl e)
  then show ?thesis
    by (auto simp: loadFromCode_def tryLoad_def throwsTagged_def versionRejected_def
          passesPlatformTest_def dummyInstance_def Let_def split: option.splits)
next
  case (Inr inst)
  show ?thesis
  proof (cases inst)
    case None
    with Inr show ?thesis
      by (simp add: loadFromCode_def tryLoad_def validatePlugin_def plainError_def dummyInstance_def
            versionRejected_def throwsTagged_def passesPlatformTest_def Let_def)
  next
    case (Some i)
    show ?thesis
    proof (cases "versionRejected env pluginCode")
      case True
      with Inr Some show ?thesis
        by (simp add: loadFromCode_def tryLoad_def validatePlugin_def versionRejected_def
              passesPlatformTest_def Let_def split: option.splits)
    next
      case False
      note notRejected = False
      show ?thesis
      proof (cases "jsTruthy (platform i)")
        case True
        with Inr Some notRejected show ?thesis
          by (simp add: loadFromCode_def tryLoad_def validatePlugin_def versionRejected_def
                passesPlatformTest_def Let_def split: option.splits)
      next
        case False
        with Inr Some notRejected show ?thesis
          by (simp add: loadFromCode_def tryLoad_def validatePlugin_def versionRejected_def
                passesPlatformTest_def throwsTagged_def plainError_def dummyInstance_def Let_def
                split: option.splits)
      qed
    qed
  qed
qed

theorem loadFromCode_structural_failure_witness:
  "\<not> yieldsPlatform sampleEnv ''nameless''
   \<and> loaded_state (loadFromCode sampleEnv ''h1'' ''nameless'' ''/tmp/x.js'') = Error
   \<and> errorReason (loadFromCode sampleEnv ''h1'' ''nameless'' ''/tmp/x.js'') = Some CannotParse
   \<and> loaded_instance (loadFromCode sampleEnv ''h1'' ''nameless'' ''/tmp/x.js'') = dummyInstance"
proof -
  have y: "\<not> yieldsPlatform sampleEnv ''nameless''"
    by (simp add: yieldsPlatform_def sampleEnv_getInstance provider_def)
  have p: "\<not> passesPlatformTest sampleEnv ''nameless''"
    by (simp add: passesPlatformTest_def sampleEnv_getInstance provider_def)
  have v: "\<not> versionRejected sampleEnv ''nameless''"
    by (simp add: versionRejected_def sampleEnv_getInstance provider_def)
  have t: "\<not> throwsTagged sampleEnv ''nameless''"
    by (simp add: throwsTagged_def sampleEnv_getInstance)
  from loadFromCode_structural_failure[OF y, of "''h1''" "''/tmp/x.js''"] v t y p
  show ?thesis by blast
qed

text \<open>
  C4 as stated fails for three sources on a host of version \<open>3.0.0\<close>: an object without
  \<open>platform\<close> that declares version \<open>9.9.9\<close> (the reason is \<open>VersionNotMatch\<close> and the unit
  is the object itself, which has no \<open>search\<close>); a source that throws an object carrying
  \<open>errorReason\<close>; and an object whose \<open>platform\<close> is the number \<open>5\<close>, which is no string
  and yet is accepted.
\<close>

theorem loadFromCode_version_first_counterexample:
  "\<not> yieldsPlatform sampleEnv ''nameless-9.9.9''
   \<and> errorReason (loadFromCode sampleEnv ''h1'' ''nameless-9.9.9'' ''/tmp/x.js'') = Some VersionNotMatch
   \<and> errorReason (loadFromCode sampleEnv ''h1'' ''nameless-9.9.9'' ''/tmp/x.js'') \<noteq> Some CannotParse
   \<and> search (loaded_instance (loadFromCode sampleEnv ''h1'' ''nameless-9.9.9'' ''/tmp/x.js'')) = None
   \<and> \<not> yieldsPlatform sampleEnv ''throws-tagged''
   \<and> errorReason (loadFromCode sampleEnv ''h1'' ''throws-tagged'' ''/tmp/x.js'') \<noteq> Some CannotParse
   \<and> \<not> yieldsPlatform sampleEnv ''platform-5''
   \<and> loaded_state (loadFromCode sampleEnv ''h1'' ''platform-5'' ''/tmp/x.js'') = Mounted
   \<and> loaded_state (loadFromCode sampleEnv ''h1'' ''platform-5'' ''/tmp/x.js'') \<noteq> Error"
  by (simp add: yieldsPlatform_def loadFromCode_def tryLoad_def validatePlugin_def sampleEnv_getInstance
        sampleEnv_fields provider_def filterUserVariables_def)

section \<open>The registry\<close>

lemma semver_3_2: "semverCompare ''3.0.0'' ''2.0.0'' = Returns 1"
  by (simp add: semverCompare_def parseVersion_def digitValue_def)

lemma semver_3_3: "semverCompare ''3.0.0'' ''3.0.0'' = Returns 0"
  by (simp add: semverCompare_def parseVersion_def digitValue_def)

lemma first_install:
  "installPlugin sampleEnv ''h1'' ''f1'' True emptyRegistry ''demo-3.0.0'' ''/tmp/demo.js'' None =
     (demoInstalled ''h1'' ''f1'',
      Returns \<lparr> success = True, message = None, pluginName = JString ''demo'', pluginHash = Some ''h1'' \<rparr>)"
  by (simp add: installPlugin_def load_demo_3 emptyRegistry_def demoInstalled_def sampleEnv_fields Let_def)

lemma second_install:
  "installPlugin sampleEnv ''h2'' ''f2'' True (demoInstalled ''h1'' ''f1'') ''demo-3.0.0'' ''/tmp/demo.js'' None =
     (demoInstalled ''h2'' ''f2'',
      Returns \<lparr> success = True, message = None, pluginName = JString ''demo'', pluginHash = Some ''h2'' \<rparr>)"
  by (simp add: installPlugin_def load_demo_3 demoInstalled_def checksVersion_def versionOrZero_def
        provider_def semver_3_3 sampleEnv_fields Let_def)

text \<open>
  C5, evaluated. The same source and path are installed twice; \<open>nanoid\<close> draws \<open>h1\<close> and
  then \<open>h2\<close>. Both calls succeed and one entry for \<open>demo\<close> is installed afterwards, but
  the second call does not answer that the plugin is already installed: no entry carries
  the fresh hash \<open>h2\<close>, so the old entry is replaced and the result has no message.
\<close>

theorem reinstall_same_source:
  "installPlugin sampleEnv ''h1'' ''f1'' True emptyRegistry ''demo-3.0.0'' ''/tmp/demo.js'' None =
     (demoInstalled ''h1'' ''f1'',
      Returns \<lparr> success = True, message = None, pluginName = JString ''demo'', pluginHash = Some ''h1'' \<rparr>)
   \<and> installPlugin sampleEnv ''h2'' ''f2'' True (demoInstalled ''h1'' ''f1'') ''demo-3.0.0'' ''/tmp/demo.js'' None =
     (demoInstalled ''h2'' ''f2'',
      Returns \<lparr> success = True, message = None, pluginName = JString ''demo'', pluginHash = Some ''h2'' \<rparr>)
   \<and> length (filter (\<lambda>p. name p = JString ''demo'') (plugins (demoInstalled ''h2'' ''f2''))) = 1"
  by (simp add: first_install second_install) (simp add: demoInstalled_def)

text \<open>
  C6. A provider declaring version \<open>2.0.0\<close> is installed while the installed list holds
  an entry of the same name at version \<open>3.0.0\<close>, the version check is not skipped, the
  hash drawn is fresh, and \<open>compare\<close> orders \<open>3.0.0\<close> after \<open>2.0.0\<close>. Then the call
  returns a failure saying that a newer version is already installed, and the registry
  is exactly what it was.
\<close>

theorem install_older_version_rejected:
  assumes code: "pluginCode \<noteq> []"
      and ver: "version (loaded_instance (loadFromCode env nanoid pluginCode pluginPath)) = Some ''2.0.0''"
      and fresh: "\<forall>p \<in> set (plugins reg). hash p \<noteq> nanoid"
      and old: "find (\<lambda>p. name p = loaded_name (loadFromCode env nanoid pluginCode pluginPath)) (plugins reg) = Some old"
      and oldver: "version (rp_instance old) = Some ''3.0.0''"
      and chk: "checksVersion config"
      and cmp: "compare env ''3.0.0'' ''2.0.0'' = Returns 1"
  shows "installPlugin env nanoid filename copyOk reg pluginCode pluginPath config =
           (reg, Returns \<lparr> success = False,
                           message = Some ''A newer version of the plugin is already installed'',
                           pluginName = loaded_name (loadFromCode env nanoid pluginCode pluginPath),
                           pluginHash = Some nanoid \<rparr>)"
proof -
  have h: "loaded_hash (loadFromCode env nanoid pluginCode pluginPath) = nanoid"
    by (simp add: loadFromCode_def Let_def split: sum.splits)
  have nohash: "find (\<lambda>p. hash p = nanoid) (plugins reg) = None"
    using fresh by (simp add: find_None_iff)
  show ?thesis
    using code ver old oldver chk cmp nohash
    by (simp add: installPlugin_def Let_def h versionOrZero_def)
qed

theorem install_older_version_rejected_witness:
  "installPlugin sampleEnv ''h2'' ''f2'' True (demoInstalled ''h1'' ''f1'') ''demo-2.0.0'' ''/tmp/demo2.js'' None =
     (demoInstalled ''h1'' ''f1'',
      Returns \<lparr> success = False,
                message = Some ''A newer version of the plugin is already installed'',
                pluginName = JString ''demo'', pluginHash = Some ''h2'' \<rparr>)"
proof -
  let ?old = "\<lparr> rp_instance = provider ''demo'' ''3.0.0'' None, state = Mounted, hash = ''h1'',
            name = JString ''demo'', path = ''/plugins/'' @ ''f1'' @ ''.js'',
            meta = \<lparr> enabled = True, order = 0, meta_userVariables = Map.empty \<rparr> \<rparr>"
  have code: "''demo-2.0.0'' \<noteq> []" by simp
  have ver: "version (loaded_instance (loadFromCode sampleEnv ''h2'' ''demo-2.0.0'' ''/tmp/demo2.js'')) = Some ''2.0.0''"
    by (simp add: load_demo_2 provider_def)
  have fresh: "\<forall>p \<in> set (plugins (demoInstalled ''h1'' ''f1'')). hash p \<noteq> ''h2''"
    by (simp add: demoInstalled_def)
  have old: "find (\<lambda>p. name p = loaded_name (loadFromCode sampleEnv ''h2'' ''demo-2.0.0'' ''/tmp/demo2.js''))
               (plugins (demoInstalled ''h1'' ''f1'')) = Some ?old"
    by (simp add: load_demo_2 demoInstalled_def)
  have oldver: "version (rp_instance ?old) = Some ''3.0.0''"
    by (simp add: provider_def)
  have chk: "checksVersion None" by (simp add: checksVersion_def)
  have cmp: "compare sampleEnv ''3.0.0'' ''2.0.0'' = Returns 1"
    by (simp add: sampleEnv_fields semver_3_2)
  from install_older_version_rejected[OF code ver fresh old oldver chk cmp, of "''f2''" True]
  show ?thesis by (simp add: load_demo_2)
qed

subsection \<open>At most one installed entry for a name\<close>










lemma installPlugin_two_parts:
  "installPlugin env nanoid filename copyOk reg pluginCode pluginPath config =
     (case installBegin env nanoid filename reg pluginCode pluginPath config of
        (reg', Inl result) \<Rightarrow> (reg', result)
      | (reg', Inr pending) \<Rightarrow> installResume env copyOk reg' pending)"
  by (simp add: installPlugin_def installBegin_def installResume_def Let_def
        split: option.splits outcome.splits bool.splits)





subsection \<open>Enabling an unknown name\<close>

text \<open>
  C10. For a name that no entry of the registry carries, built-in or installed,
  \<open>setPluginEnabled\<close> returns the registry as it was (it has no throwing path), and
  \<open>isPluginEnabled\<close> returns false.
\<close>

theorem unknown_name_setEnabled:
  assumes "\<forall>p \<in> set (getAllPlugins reg). name p \<noteq> JString n"
  shows "setPluginEnabled reg n en = reg \<and> isPluginEnabled reg n = False"
proof -
  from assms have "getPluginByName reg (JString n) = None"
    by (simp add: getPluginByName_def find_None_iff)
  then show ?thesis by (simp add: setPluginEnabled_def isPluginEnabled_def)
qed

theorem unknown_name_setEnabled_witness:
  "setPluginEnabled (demoInstalled ''h1'' ''f1'') ''missing'' False = demoInstalled ''h1'' ''f1''
   \<and> isPluginEnabled (demoInstalled ''h1'' ''f1'') ''missing'' = False"
proof -
  have "\<forall>p \<in> set (getAllPlugins (demoInstalled ''h1'' ''f1'')). name p \<noteq> JString ''missing''"
    by (simp add: getAllPlugins_def demoInstalled_def)
  then show ?thesis by (rule unknown_name_setEnabled)
qed

section \<open>The manager: media source\<close>

lemma demo_lookup:
  "getPluginByName (demoInstalled h f) (JString ''demo'') =
     Some \<lparr> rp_instance = provider ''demo'' ''3.0.0'' None, state = Mounted, hash = h,
            name = JString ''demo'', path = ''/plugins/'' @ f @ ''.js'',
            meta = \<lparr> enabled = True, order = 0, meta_userVariables = Map.empty \<rparr> \<rparr>"
  by (simp add: getPluginByName_def getAllPlugins_def demoInstalled_def)

text \<open>
  C8 (as amended). \<open>getMediaSource\<close> of the manager never throws. It returns null when
  no entry carries the item's platform and when the entry found is disabled. When the
  entry is enabled and its provider has no \<open>getMediaSource\<close>, it returns
  \<open>{url: item.url}\<close> if the item's \<open>url\<close> is present and not the empty string, and null
  otherwise.
\<close>

theorem getMediaSource_fallback:
  "(getPluginByName reg (item_platform musicItem) = None \<longrightarrow>
      managerGetMediaSource reg musicItem quality = None)
   \<and> (\<forall>plugin. getPluginByName reg (item_platform musicItem) = Some plugin \<and> \<not> enabled (meta plugin) \<longrightarrow>
      managerGetMediaSource reg musicItem quality = None)
   \<and> (\<forall>plugin. getPluginByName reg (item_platform musicItem) = Some plugin \<and> enabled (meta plugin)
        \<and> getMediaSource (rp_instance plugin) = None \<longrightarrow>
      managerGetMediaSource reg musicItem quality =
        (case item_url musicItem of
           None \<Rightarrow> None
         | Some u \<Rightarrow> if u = [] then None else Some \<lparr> source_url = u \<rparr>))"
  by (auto simp: managerGetMediaSource_def split: option.splits)

theorem getMediaSource_fallback_witness:
  "managerGetMediaSource (demoInstalled ''h1'' ''f1'') (demoItem (Some ''http://host/a.mp3'')) ''128k''
     = Some \<lparr> source_url = ''http://host/a.mp3'' \<rparr>
   \<and> managerGetMediaSource emptyRegistry (demoItem (Some ''http://host/a.mp3'')) ''128k'' = None"
proof -
  let ?item = "demoItem (Some ''http://host/a.mp3'')"
  let ?entry = "\<lparr> rp_instance = provider ''demo'' ''3.0.0'' None, state = Mounted, hash = ''h1'',
            name = JString ''demo'', path = ''/plugins/'' @ ''f1'' @ ''.js'',
            meta = \<lparr> enabled = True, order = 0, meta_userVariables = Map.empty \<rparr> \<rparr>"
  have look: "getPluginByName (demoInstalled ''h1'' ''f1'') (item_platform ?item) = Some ?entry"
    by (simp add: demoItem_def demo_lookup)
  have en: "enabled (meta ?entry)" by simp
  have nom: "getMediaSource (rp_instance ?entry) = None" by (simp add: provider_def)
  have none: "getPluginByName emptyRegistry (item_platform ?item) = None"
    by (simp add: getPluginByName_def getAllPlugins_def emptyRegistry_def)
  from getMediaSource_fallback[of "demoInstalled ''h1'' ''f1''" ?item "''128k''"] look en nom
  have "managerGetMediaSource (demoInstalled ''h1'' ''f1'') ?item ''128k'' =
        (case item_url ?item of None \<Rightarrow> None | Some u \<Rightarrow> if u = [] then None else Some \<lparr> source_url = u \<rparr>)"
    by blast
  moreover from getMediaSource_fallback[of emptyRegistry ?item "''128k''"] none
  have "managerGetMediaSource emptyRegistry ?item ''128k'' = None"
    by blast
  ultimately show ?thesis by (simp add: demoItem_def)
qed

text \<open>
  C8 as stated fails for an item that carries a \<open>url\<close> field holding the empty string,
  which is what \<open>searchAll\<close> writes into a track when the provider gave no address: the
  result is null, not \<open>{url: ''}\<close>.
\<close>

theorem empty_url_counterexample:
  "item_url (demoItem (Some [])) = Some []
   \<and> managerGetMediaSource (demoInstalled ''h1'' ''f1'') (demoItem (Some [])) ''128k'' = None
   \<and> managerGetMediaSource (demoInstalled ''h1'' ''f1'') (demoItem (Some [])) ''128k''
        \<noteq> Some \<lparr> source_url = [] \<rparr>"
  by (simp add: managerGetMediaSource_def demoItem_def demo_lookup provider_def)

section \<open>User variables and the durable write\<close>







end
